theory Spec2Isabelle
  imports Complex_Main "HOL-Library.Word"
begin

section \<open>JavaScript strings\<close>

text \<open>
  A JavaScript string is a finite sequence of 16-bit code units; \<open>str.length\<close> counts code
  units and every index of \<open>substring\<close>, \<open>charAt\<close> and \<open>slice\<close> is a code-unit index.
\<close>

type_synonym code_unit = "16 word"

type_synonym jsstring = "code_unit list"

text \<open>A string literal of the source whose characters all lie in U+0000..U+00FF.\<close>

definition js :: "string \<Rightarrow> jsstring" where
  "js s = map of_char s"

text \<open>
  \<open>String.prototype.substring(start, end)\<close>: both indices are clamped to \<open>0 .. str.length\<close>
  and swapped when the first is the larger one.
\<close>

definition substring :: "jsstring \<Rightarrow> int \<Rightarrow> int \<Rightarrow> jsstring" where
  "substring str start fin =
     (let len = int (length str);
          intStart = min (max start 0) len;
          intEnd = min (max fin 0) len;
          lo = min intStart intEnd;
          hi = max intStart intEnd
      in take (nat (hi - lo)) (drop (nat lo) str))"

text \<open>The exceptions of the host that the modelled code can raise.\<close>

datatype js_error = ReferenceError | RangeError | TypeError

section \<open>JavaScript numbers\<close>

text \<open>
  A value of type \<open>number\<close>, for the places where the code hands one to the host: a finite
  number (every finite double is a rational), \<open>NaN\<close> or one of the infinities.
\<close>

datatype js_number = Finite rat | NaN | Infinity | NegInfinity

section \<open>Types\<close>

text \<open>
  \<^verbatim>\<open>
  export interface User {
      id: string;
      name: string;
      email: string;
      image?: string;
      role: 'user' | 'admin';
      createdAt: Date;
      updatedAt: Date;
  }
  \<close>
  An interface is a compile-time shape; the values of the type are the objects assignable
  to it. An object is its properties, a property name being absent or bound to a value.
\<close>

datatype js_value =
  Undefined | Null | Bool bool | Num js_number | Str jsstring | DateObject int

type_synonym js_object = "string \<Rightarrow> js_value option"

text \<open>The types the declaration uses, and a property declaration: name, \<open>?\<close> and type.\<close>

datatype ts_type = T_string | T_literal_union "jsstring list" | T_Date

record property_decl =
  prop_name :: string
  prop_optional :: bool
  prop_type :: ts_type

definition User :: "property_decl list" where
  "User =
     [\<lparr>prop_name = ''id'', prop_optional = False, prop_type = T_string\<rparr>,
      \<lparr>prop_name = ''name'', prop_optional = False, prop_type = T_string\<rparr>,
      \<lparr>prop_name = ''email'', prop_optional = False, prop_type = T_string\<rparr>,
      \<lparr>prop_name = ''image'', prop_optional = True, prop_type = T_string\<rparr>,
      \<lparr>prop_name = ''role'', prop_optional = False,
        prop_type = T_literal_union [js ''user'', js ''admin'']\<rparr>,
      \<lparr>prop_name = ''createdAt'', prop_optional = False, prop_type = T_Date\<rparr>,
      \<lparr>prop_name = ''updatedAt'', prop_optional = False, prop_type = T_Date\<rparr>]"

text \<open>
  Assignability as TypeScript has it. An interface is open: an object is assignable when
  every declared property is in order, whatever other properties it carries. A required
  property must be present with a value of its type; an optional one may be absent and,
  \<open>exactOptionalPropertyTypes\<close> not being set, may also be present with the value
  \<open>undefined\<close>.
\<close>

fun has_type :: "js_value \<Rightarrow> ts_type \<Rightarrow> bool" where
  "has_type (Str s) T_string = True"
| "has_type (Str s) (T_literal_union ls) = (s \<in> set ls)"
| "has_type (DateObject t) T_Date = True"
| "has_type v ty = False"

definition property_ok :: "js_object \<Rightarrow> property_decl \<Rightarrow> bool" where
  "property_ok obj p =
     (case obj (prop_name p) of
        None \<Rightarrow> prop_optional p
      | Some v \<Rightarrow> has_type v (prop_type p) \<or> (prop_optional p \<and> v = Undefined))"

definition assignable_to :: "js_object \<Rightarrow> property_decl list \<Rightarrow> bool" where
  "assignable_to obj decls = list_all (property_ok obj) decls"

section \<open>The media-query hook\<close>

text \<open>
  The browser as the hook sees it. A function object (the \<open>listener\<close> closure) and a
  \<open>MediaQueryList\<close> object are known by their identity. The global \<open>window\<close> is absent
  (\<open>None\<close>) outside a browser; where present it gives \<open>matchMedia\<close>. Every
  \<open>MediaQueryList\<close> holds its \<open>matches\<close> flag and its event listener list of pairs of
  event type and callback.
\<close>

type_synonym fn_ref = nat

type_synonym mql_ref = nat

record MediaQueryList =
  mql_matches :: bool
  mql_listeners :: "(jsstring \<times> fn_ref) list"

record browser =
  window :: "(jsstring \<Rightarrow> mql_ref) option"
  heap :: "mql_ref \<Rightarrow> MediaQueryList"
  next_fn :: fn_ref

text \<open>
  \<open>EventTarget.addEventListener\<close> appends the listener unless the list already holds one of
  the same type and callback; \<open>removeEventListener\<close> removes the listener of that type and
  callback if there is one.
\<close>

definition addEventListener :: "jsstring \<Rightarrow> fn_ref \<Rightarrow> MediaQueryList \<Rightarrow> MediaQueryList" where
  "addEventListener type callback m =
     (if (type, callback) \<in> set (mql_listeners m) then m
      else m\<lparr>mql_listeners := mql_listeners m @ [(type, callback)]\<rparr>)"

definition removeEventListener :: "jsstring \<Rightarrow> fn_ref \<Rightarrow> MediaQueryList \<Rightarrow> MediaQueryList" where
  "removeEventListener type callback m =
     m\<lparr>mql_listeners := remove1 (type, callback) (mql_listeners m)\<rparr>"

text \<open>
  \<^verbatim>\<open>
  export function useMediaQuery(query: string): boolean {
      const [matches, setMatches] = useState(false);
      useEffect(() => {
          const media = window.matchMedia(query);
          if (media.matches !== matches) { setMatches(media.matches); }
          const listener = () => setMatches(media.matches);
          media.addEventListener('change', listener);
          return () => media.removeEventListener('change', listener);
      }, [matches, query]);
      return matches;
  }
  \<close>
  The effect body takes the query and the \<open>matches\<close> state of the render it belongs to.
  It throws, or returns its cleanup closure (the \<open>media\<close> and \<open>listener\<close> it captured),
  the \<open>matches\<close> state after the body's \<open>setMatches\<close>, and the browser it leaves.
\<close>

record cleanup_closure =
  captured_media :: mql_ref
  captured_listener :: fn_ref

definition useMediaQuery_effect ::
  "jsstring \<Rightarrow> bool \<Rightarrow> browser \<Rightarrow> js_error + (cleanup_closure \<times> bool \<times> browser)" where
  "useMediaQuery_effect query matches b =
     (case window b of
        None \<Rightarrow> Inl ReferenceError
      | Some matchMedia \<Rightarrow>
          let media = matchMedia query;
              matches' = (if mql_matches (heap b media) \<noteq> matches
                          then mql_matches (heap b media) else matches);
              listener = next_fn b;
              b1 = b\<lparr>next_fn := Suc (next_fn b)\<rparr>;
              b2 = b1\<lparr>heap := (heap b1)
                     (media := addEventListener (js ''change'') listener (heap b1 media))\<rparr>
          in Inr (\<lparr>captured_media = media, captured_listener = listener\<rparr>, matches', b2))"

definition useMediaQuery_cleanup :: "cleanup_closure \<Rightarrow> browser \<Rightarrow> browser" where
  "useMediaQuery_cleanup cl b =
     b\<lparr>heap := (heap b)
        (captured_media cl :=
           removeEventListener (js ''change'') (captured_listener cl)
             (heap b (captured_media cl)))\<rparr>"

text \<open>
  Function objects are allocated in order: every callback registered on the list was
  created before the next closure is.
\<close>

definition listeners_allocated :: "browser \<Rightarrow> mql_ref \<Rightarrow> bool" where
  "listeners_allocated b media =
     list_all (\<lambda>(type, callback). callback < next_fn b) (mql_listeners (heap b media))"

section \<open>The debounce hook\<close>


text \<open>
  The delay a host timer waits for. The host keeps it as whole milliseconds in a signed
  32-bit integer: a number from 0 to \<open>2^31 - 1\<close> is truncated to whole milliseconds and
  waited for. For any other number hosts differ, and none waits the number given: the HTML
  standard wraps it to 32 bits and takes 0 for a negative result and for \<open>NaN\<close> and the
  infinities, Node.js takes 1. The timer below is due at the earliest of these.
\<close>

definition timer_delay :: "js_number \<Rightarrow> int" where
  "timer_delay delay =
     (case delay of
        Finite q \<Rightarrow> if 0 \<le> q \<and> q \<le> 2147483647 then \<lfloor>q\<rfloor> else 0
      | _ \<Rightarrow> 0)"


















section \<open>Number formatting\<close>

text \<open>
  \<open>Intl.NumberFormat\<close> belongs to the host, not to this repository, so the formatting
  functions take it as a parameter: the constructor receives the locale and the options
  object (\<open>None\<close> where the call passes none), throws or returns a formatter, and the
  formatter's \<open>format\<close> method maps a number to a string. Numbers are only handed on, so
  their type is left open.
\<close>

record NumberFormatOptions =
  style :: "jsstring option"
  currency :: "jsstring option"

type_synonym 'n NumberFormat =
  "jsstring \<Rightarrow> NumberFormatOptions option \<Rightarrow> js_error + ('n \<Rightarrow> jsstring)"

text \<open>
  \<^verbatim>\<open>
  export function formatCurrency(amount: number, currency: string = 'USD',
                                 locale: string = 'en-US'): string {
      return new Intl.NumberFormat(locale, { style: 'currency', currency }).format(amount);
  }
  export function formatNumber(num: number, locale: string = 'en-US'): string {
      return new Intl.NumberFormat(locale).format(num);
  }
  \<close>
\<close>

definition formatCurrency ::
  "'n NumberFormat \<Rightarrow> 'n \<Rightarrow> jsstring option \<Rightarrow> jsstring option \<Rightarrow> js_error + jsstring" where
  "formatCurrency Intl_NumberFormat amount currency_arg locale_arg =
     (let currency = (case currency_arg of None \<Rightarrow> js ''USD'' | Some c \<Rightarrow> c);
          locale = (case locale_arg of None \<Rightarrow> js ''en-US'' | Some l \<Rightarrow> l)
      in case Intl_NumberFormat locale
                (Some \<lparr>style = Some (js ''currency''), currency = Some currency\<rparr>) of
           Inl e \<Rightarrow> Inl e
         | Inr formatter \<Rightarrow> Inr (formatter amount))"


text \<open>
  The specification's side of the two pass-throughs: the string that the
  internationalization API itself produces, with nothing before or after it.
\<close>

definition Intl_format ::
  "'n NumberFormat \<Rightarrow> jsstring \<Rightarrow> NumberFormatOptions option \<Rightarrow> 'n \<Rightarrow> js_error + jsstring" where
  "Intl_format Intl_NumberFormat locale options n =
     map_sum (\<lambda>e. e) (\<lambda>formatter. formatter n) (Intl_NumberFormat locale options)"







section \<open>String utilities\<close>

text \<open>
  \<^verbatim>\<open>
  export function truncate(str: string, length: number, suffix: string = '...'): string {
      if (str.length <= length) return str;
      return str.substring(0, length - suffix.length) + suffix;
  }
  \<close>
  The maximum length is a whole number of code units, here an \<open>int\<close> (it may be negative).
  An omitted \<open>suffix\<close> is \<open>None\<close> and takes the default of the parameter list.
\<close>

definition truncate :: "jsstring \<Rightarrow> int \<Rightarrow> jsstring option \<Rightarrow> jsstring" where
  "truncate str len suffix_arg =
     (let suffix = (case suffix_arg of None \<Rightarrow> js ''...'' | Some s \<Rightarrow> s)
      in if int (length str) \<le> len then str
         else substring str 0 (len - int (length suffix)) @ suffix)"







text \<open>
  \<open>str.split(sep)\<close> for a separator of one code unit: one piece more than there are
  separators, so the empty string splits into one empty piece.
\<close>

fun split :: "jsstring \<Rightarrow> code_unit \<Rightarrow> jsstring list" where
  "split [] sep = [[]]"
| "split (c # cs) sep =
     (if c = sep then [] # split cs sep
      else (c # hd (split cs sep)) # tl (split cs sep))"









section \<open>Properties of truncate\<close>


lemma substring_prefix: "substring str 0 n = take (nat n) str"
  by (simp add: substring_def Let_def min_def max_def)



text \<open>
  C2, evaluated where the documented maximum length is smaller than the suffix: six code
  units are cut to a maximum of two with the default suffix, and the result is the
  three-unit suffix alone, longer than the maximum.
\<close>

theorem truncate_exceeds_maximum:
  "truncate (js ''abcdef'') 2 None = js ''...'' \<and>
   2 < int (length (truncate (js ''abcdef'') 2 None))"
  by (simp add: truncate_def substring_prefix js_def)



section \<open>Properties of the number formatters\<close>

text \<open>
  C6: for every amount, currency code and locale, \<open>formatCurrency\<close> returns exactly what
  \<open>Intl.NumberFormat(locale, {style: 'currency', currency}).format(amount)\<close> produces (the
  string, or the exception of the constructor), an omitted currency being \<open>'USD'\<close> and an
  omitted locale \<open>'en-US'\<close>.
\<close>

theorem formatCurrency_is_Intl_format:
  "formatCurrency Intl_NumberFormat amount (Some cur) (Some locale) =
     Intl_format Intl_NumberFormat locale
       (Some \<lparr>style = Some (js ''currency''), currency = Some cur\<rparr>) amount \<and>
   formatCurrency Intl_NumberFormat amount None (Some locale) =
     formatCurrency Intl_NumberFormat amount (Some (js ''USD'')) (Some locale) \<and>
   formatCurrency Intl_NumberFormat amount currency_arg None =
     formatCurrency Intl_NumberFormat amount currency_arg (Some (js ''en-US''))"
  by (simp add: formatCurrency_def Intl_format_def map_sum_def split: sum.splits)














section \<open>Properties of the User type\<close>

lemma has_type_string: "has_type v T_string \<longleftrightarrow> (\<exists>s. v = Str s)"
  by (cases v) simp_all

lemma has_type_Date: "has_type v T_Date \<longleftrightarrow> (\<exists>t. v = DateObject t)"
  by (cases v) simp_all

lemma has_type_union: "has_type v (T_literal_union ls) \<longleftrightarrow> (\<exists>s. v = Str s \<and> s \<in> set ls)"
  by (cases v) simp_all

lemma required_ok:
  "property_ok obj \<lparr>prop_name = n, prop_optional = False, prop_type = ty\<rparr> \<longleftrightarrow>
     (\<exists>v. obj n = Some v \<and> has_type v ty)"
  by (simp add: property_ok_def split: option.splits)

lemma optional_ok:
  "property_ok obj \<lparr>prop_name = n, prop_optional = True, prop_type = ty\<rparr> \<longleftrightarrow>
     obj n = None \<or> obj n = Some Undefined \<or> (\<exists>v. obj n = Some v \<and> has_type v ty)"
  by (auto simp: property_ok_def split: option.splits)

text \<open>
  C5 as stated fails: an object with an image, and with a property the interface does not
  name at all, is a \<open>User\<close>, so a \<open>User\<close> value can have fields outside the list id, name,
  email, role, createdAt, updatedAt.
\<close>

theorem User_extra_field_counterexample:
  "assignable_to
     [''id'' \<mapsto> Str (js ''1''), ''name'' \<mapsto> Str (js ''Ada''),
      ''email'' \<mapsto> Str (js ''ada@example.com''), ''image'' \<mapsto> Str (js ''ada.png''),
      ''role'' \<mapsto> Str (js ''admin''), ''createdAt'' \<mapsto> DateObject 0,
      ''updatedAt'' \<mapsto> DateObject 0, ''nickname'' \<mapsto> Str (js ''ada'')]
     User \<and>
   [''id'' \<mapsto> Str (js ''1''), ''name'' \<mapsto> Str (js ''Ada''),
      ''email'' \<mapsto> Str (js ''ada@example.com''), ''image'' \<mapsto> Str (js ''ada.png''),
      ''role'' \<mapsto> Str (js ''admin''), ''createdAt'' \<mapsto> DateObject 0,
      ''updatedAt'' \<mapsto> DateObject 0, ''nickname'' \<mapsto> Str (js ''ada'')] ''image''
     = Some (Str (js ''ada.png'')) \<and>
   [''id'' \<mapsto> Str (js ''1''), ''name'' \<mapsto> Str (js ''Ada''),
      ''email'' \<mapsto> Str (js ''ada@example.com''), ''image'' \<mapsto> Str (js ''ada.png''),
      ''role'' \<mapsto> Str (js ''admin''), ''createdAt'' \<mapsto> DateObject 0,
      ''updatedAt'' \<mapsto> DateObject 0, ''nickname'' \<mapsto> Str (js ''ada'')] ''nickname''
     = Some (Str (js ''ada''))"
  by (simp add: assignable_to_def User_def property_ok_def js_def)

text \<open>
  C5, amended: the \<open>User\<close> values are exactly the objects that have the fields id, name and
  email (strings), role (\<open>'user'\<close> or \<open>'admin'\<close>) and the timestamps createdAt and updatedAt
  (dates), and whose field image, if they have it, is a string or \<open>undefined\<close>; every
  \<open>User\<close> value has all six required fields, and nothing is said of its other fields.
\<close>

theorem User_required_and_optional_fields:
  "assignable_to obj User \<longleftrightarrow>
     (\<exists>s. obj ''id'' = Some (Str s)) \<and>
     (\<exists>s. obj ''name'' = Some (Str s)) \<and>
     (\<exists>s. obj ''email'' = Some (Str s)) \<and>
     (obj ''image'' = None \<or> obj ''image'' = Some Undefined \<or> (\<exists>s. obj ''image'' = Some (Str s))) \<and>
     (obj ''role'' = Some (Str (js ''user'')) \<or> obj ''role'' = Some (Str (js ''admin''))) \<and>
     (\<exists>t. obj ''createdAt'' = Some (DateObject t)) \<and>
     (\<exists>t. obj ''updatedAt'' = Some (DateObject t))"
  unfolding assignable_to_def User_def list.pred_inject required_ok optional_ok
    has_type_string has_type_Date has_type_union
  by auto

section \<open>Properties of the media-query hook\<close>

lemma fresh_listener:
  "listeners_allocated b media \<Longrightarrow> (type, next_fn b) \<notin> set (mql_listeners (heap b media))"
  by (auto simp: listeners_allocated_def list_all_iff)

lemma add_remove_fresh:
  "(type, callback) \<notin> set (mql_listeners m) \<Longrightarrow>
   removeEventListener type callback (addEventListener type callback m) = m"
  by (simp add: addEventListener_def removeEventListener_def remove1_append)

lemma add_fresh_listeners:
  "(type, callback) \<notin> set (mql_listeners m) \<Longrightarrow>
   mql_listeners (addEventListener type callback m) = mql_listeners m @ [(type, callback)] \<and>
   mql_matches (addEventListener type callback m) = mql_matches m"
  by (simp add: addEventListener_def)

text \<open>
  C3: in a browser, for every query, the effect appends exactly one \<open>'change'\<close> listener to
  the listener list of the media-query list that \<open>window.matchMedia(query)\<close> gives, leaves
  the hook's state at that list's boolean \<open>matches\<close>, and changes nothing else of that list
  nor any other list; the cleanup it returns removes that same listener, after which
  every media-query list is as it was before the effect.
\<close>

theorem useMediaQuery_subscribes_one_listener:
  assumes win: "window b = Some matchMedia"
    and alloc: "listeners_allocated b (matchMedia query)"
  shows "\<exists>cl b'. useMediaQuery_effect query matches b =
             Inr (cl, mql_matches (heap b (matchMedia query)), b') \<and>
           captured_media cl = matchMedia query \<and>
           mql_listeners (heap b' (matchMedia query)) =
             mql_listeners (heap b (matchMedia query)) @ [(js ''change'', captured_listener cl)] \<and>
           mql_matches (heap b' (matchMedia query)) = mql_matches (heap b (matchMedia query)) \<and>
           (\<forall>r. r \<noteq> matchMedia query \<longrightarrow> heap b' r = heap b r) \<and>
           window b' = window b \<and>
           heap (useMediaQuery_cleanup cl b') = heap b \<and>
           window (useMediaQuery_cleanup cl b') = window b"
proof -
  let ?media = "matchMedia query"
  let ?cl = "\<lparr>captured_media = ?media, captured_listener = next_fn b\<rparr>"
  let ?b' = "b\<lparr>next_fn := Suc (next_fn b),
               heap := (heap b)(?media := addEventListener (js ''change'') (next_fn b) (heap b ?media))\<rparr>"
  have fresh: "(js ''change'', next_fn b) \<notin> set (mql_listeners (heap b ?media))"
    using alloc by (rule fresh_listener)
  have eff: "useMediaQuery_effect query matches b = Inr (?cl, mql_matches (heap b ?media), ?b')"
    using win by (simp add: useMediaQuery_effect_def Let_def)
  have undo: "heap (useMediaQuery_cleanup ?cl ?b') = heap b"
    using add_remove_fresh [OF fresh] by (simp add: useMediaQuery_cleanup_def)
  have "window (useMediaQuery_cleanup ?cl ?b') = window b"
    by (simp add: useMediaQuery_cleanup_def)
  with eff undo add_fresh_listeners [OF fresh] show ?thesis
    by simp
qed

theorem useMediaQuery_subscribes_one_listener_witness:
  "(case useMediaQuery_effect (js ''(max-width: 768px)'') False
           \<lparr>window = Some (\<lambda>q. 7),
            heap = (\<lambda>r. \<lparr>mql_matches = True, mql_listeners = [(js ''change'', 0)]\<rparr>),
            next_fn = 1\<rparr> of
      Inl e \<Rightarrow> False
    | Inr (cl, m, b') \<Rightarrow>
        m \<and> mql_listeners (heap b' 7) = [(js ''change'', 0), (js ''change'', captured_listener cl)] \<and>
        mql_listeners (heap (useMediaQuery_cleanup cl b') 7) = [(js ''change'', 0)])"
  using useMediaQuery_subscribes_one_listener
    [of "\<lparr>window = Some (\<lambda>q. 7),
            heap = (\<lambda>r. \<lparr>mql_matches = True, mql_listeners = [(js ''change'', 0)]\<rparr>),
            next_fn = 1\<rparr>" "\<lambda>q. 7" "js ''(max-width: 768px)''" False]
  by (auto simp: listeners_allocated_def)

text \<open>
  C4: where there is no \<open>window\<close> object, the effect throws at \<open>window.matchMedia\<close> for
  every query and every state: no branch of the effect answers the absence of the browser
  interface with anything but the exception.
\<close>

theorem useMediaQuery_effect_without_window:
  "useMediaQuery_effect query matches (b\<lparr>window := None\<rparr>) = Inl ReferenceError"
  by (simp add: useMediaQuery_effect_def)

section \<open>Properties of titleCase\<close>





























section \<open>Properties of the debounce hook\<close>


lemma timer_delay_nonneg: "0 \<le> timer_delay delay"
  by (cases delay) (simp_all add: timer_delay_def)






















end
